theory Spec2Isabelle
  imports Main
begin

section \<open>Jewish calendar sensors (homeassistant/components/jewish_calendar/sensor.py)\<close>

text \<open>
  The module decides which calendar day applies at a moment (the civil day, the day that
  starts at sunset, the day that starts at nightfall) and which field of the \<open>hdate\<close>
  library each sensor reads. The Hebrew calendar arithmetic and the computation of the
  halachic times belong to that library and to the host; they enter the model as the
  fields of the records \<open>Library\<close> and \<open>Host\<close>, about which nothing is assumed.
\<close>

subsection \<open>Values\<close>

text \<open>A civil date is its proleptic Gregorian ordinal (Python's \<open>date.toordinal()\<close>).\<close>

type_synonym Date = int

text \<open>
  A timezone-aware \<open>datetime\<close> is its instant on the time line (microseconds since the
  epoch): the comparisons \<open>now > sunset\<close> and \<open>now > havdalah\<close> of the source are
  comparisons of instants. The civil date of a datetime (\<open>.date()\<close>) depends on the
  host's time zone and is the field \<open>local_date\<close> of \<open>Host\<close>.
\<close>

type_synonym datetime = int

type_synonym Location = string

datatype py_error = IndexError | KeyError

datatype SensorDeviceClass = ENUM | TIMESTAMP

record SensorEntityDescription =
  key :: string
  name :: string
  icon :: string
  translation_key :: "string option"
  device_class :: "SensorDeviceClass option"

text \<open>What a sensor publishes: \<open>None\<close>, a string, an integer or a point in time.\<close>

datatype native_value = NoneValue | StrValue string | IntValue int | TimeValue datetime

datatype attr_value = AttrInt int | AttrStr string

text \<open>
  The two classes of the module; \<open>JewishCalendarTimeSensor\<close> overrides \<open>get_state\<close> (and
  fixes the device class \<open>TIMESTAMP\<close> for its instances).
\<close>

datatype sensor_class = JewishCalendarSensor | JewishCalendarTimeSensor

text \<open>
  The instance attributes set by \<open>__init__\<close> (leading underscores dropped), with
  \<open>attr_native_value\<close> and \<open>attr_options\<close>, which the entity base class starts at \<open>None\<close>.
  A Python dict keeps insertion order, so \<open>attrs\<close> is an association list.
\<close>

record Sensor =
  cls :: sensor_class
  entity_description :: SensorEntityDescription
  attr_name :: string
  attr_unique_id :: string
  location :: Location
  hebrew :: bool
  candle_lighting_offset :: int
  havdalah_offset :: int
  diaspora :: bool
  attrs :: "(string \<times> attr_value) list"
  attr_native_value :: native_value
  attr_options :: "string list option"

text \<open>The entry data \<open>hass.data[DOMAIN][entry_id]\<close>, read by \<open>__init__\<close>.\<close>

record EntryData =
  CONF_LOCATION :: Location
  CONF_LANGUAGE :: string
  CONF_CANDLE_LIGHT_MINUTES :: int
  CONF_HAVDALAH_OFFSET_MINUTES :: int
  CONF_DIASPORA :: bool

subsection \<open>The external calendar library\<close>

text \<open>
  \<open>HDate(date, diaspora=..., hebrew=...)\<close>: a Hebrew calendar date anchored to a civil
  date. Its day index is \<open>gdate\<close>.
\<close>

record HDate =
  gdate :: Date
  hd_diaspora :: bool
  hd_hebrew :: bool

text \<open>
  Modelled from the spec: \<open>next_day\<close> and \<open>previous_day\<close> are properties of the \<open>hdate\<close>
  library, which is not part of the source. The specification describes them as navigation
  by one civil day (\<open>nextDay\<close>, \<open>previousDay\<close>, "advanced by one day"): the same calendar
  settings, the civil date moved by one.
\<close>

definition next_day :: "HDate \<Rightarrow> HDate" where
  "next_day d = d\<lparr>gdate := gdate d + 1\<rparr>"

definition previous_day :: "HDate \<Rightarrow> HDate" where
  "previous_day d = d\<lparr>gdate := gdate d - 1\<rparr>"

record HebrewDate =
  year :: int
  month_value :: int
  day :: int

text \<open>An entry of \<open>htables.MONTHS\<close> or \<open>htables.PARASHAOT\<close>.\<close>

record LANG =
  lang_english :: string
  lang_hebrew :: string

text \<open>An entry of \<open>htables.HOLIDAYS\<close>: \<open>h.description.hebrew.long\<close> and \<open>h.description.english\<close>.\<close>

record HOLIDAY =
  description_hebrew_long :: string
  description_english :: string

text \<open>
  \<open>Zmanim(date=..., location=..., candle_lighting_offset=..., havdalah_offset=...,
  hebrew=...)\<close>: the request for the time table of one civil date.
\<close>

record Zmanim =
  z_date :: Date
  z_location :: Location
  z_candle_lighting_offset :: int
  z_havdalah_offset :: int
  z_hebrew :: bool

text \<open>
  The tables, properties and navigation of \<open>hdate\<close> that the module reads. \<open>zmanim\<close> is
  the dict of all computed times of a table.
\<close>

record Library =
  MONTHS :: "LANG list"
  PARASHAOT :: "LANG list"
  HOLIDAYS :: "HOLIDAY list"
  hdate :: "HDate \<Rightarrow> HebrewDate"
  hebrew_date :: "HDate \<Rightarrow> string"
  parasha :: "HDate \<Rightarrow> string"
  holiday_name :: "HDate \<Rightarrow> string"
  holiday_type_name :: "HDate \<Rightarrow> string"
  holiday_type_value :: "HDate \<Rightarrow> int"
  holiday_description :: "HDate \<Rightarrow> string"
  omer_day :: "HDate \<Rightarrow> int"
  daf_yomi :: "HDate \<Rightarrow> string"
  upcoming_shabbat :: "HDate \<Rightarrow> HDate"
  upcoming_shabbat_or_yom_tov :: "HDate \<Rightarrow> HDate"
  first_day :: "HDate \<Rightarrow> HDate"
  last_day :: "HDate \<Rightarrow> HDate"
  candle_lighting :: "Zmanim \<Rightarrow> datetime option"
  havdalah :: "Zmanim \<Rightarrow> datetime option"
  zmanim :: "Zmanim \<Rightarrow> (string \<times> datetime) list"

subsection \<open>The host\<close>

text \<open>
  \<open>get_astral_event_date\<close> is the host's lookup of the sunset of a civil date
  (\<open>get_astral_event_date(hass, SUN_EVENT_SUNSET, date)\<close>), \<open>None\<close> when the sun does not
  set; \<open>local_date\<close> is the civil date of an instant in the host's time zone.
\<close>

record Host =
  get_astral_event_date :: "Date \<Rightarrow> datetime option"
  local_date :: "datetime \<Rightarrow> Date"

text \<open>\<open>dt_util.as_local\<close> changes the time zone of a datetime, not its instant.\<close>

definition as_local :: "datetime \<Rightarrow> datetime" where
  "as_local t = t"

text \<open>
  What the module asks of its collaborators during one update, in order: reading the
  clock (\<open>dt_util.now()\<close>), the sunset lookup, the error log line, the construction of an
  \<open>HDate\<close> and the construction of a \<open>Zmanim\<close> table. (The debug log lines are left out.)
\<close>

datatype call =
  NowRead datetime
  | SunsetLookup Date
  | ErrorLogged Date
  | HDateBuilt HDate
  | ZmanimBuilt Zmanim

subsection \<open>Python indexing\<close>

text \<open>\<open>xs[i]\<close> on a tuple: a negative index counts from the end, out of range raises.\<close>

definition py_index :: "'a list \<Rightarrow> int \<Rightarrow> py_error + 'a" where
  "py_index xs i =
     (if 0 \<le> i \<and> i < int (length xs) then Inr (xs ! nat i)
      else if i < 0 \<and> - int (length xs) \<le> i then Inr (xs ! nat (int (length xs) + i))
      else Inl IndexError)"

text \<open>\<open>d[k]\<close> on a dict: a missing key raises \<open>KeyError\<close>.\<close>

definition py_getitem :: "(string \<times> 'v) list \<Rightarrow> string \<Rightarrow> py_error + 'v" where
  "py_getitem d k = (case map_of d k of None \<Rightarrow> Inl KeyError | Some v \<Rightarrow> Inr v)"

subsection \<open>The catalog\<close>

text \<open>
  \<open>SensorEntityDescription(key=..., name=..., icon=...)\<close>; the fields not given are
  \<open>None\<close>.
\<close>

definition description :: "string \<Rightarrow> string \<Rightarrow> string \<Rightarrow> SensorEntityDescription" where
  "description k n i =
     \<lparr>key = k, name = n, icon = i, translation_key = None, device_class = None\<rparr>"

definition INFO_SENSORS :: "SensorEntityDescription list" where
  \<open>INFO_SENSORS =
     [(description ''date'' ''Date'' ''mdi:star-david'')\<lparr>translation_key := Some ''hebrew_date''\<rparr>,
      (description ''weekly_portion'' ''Parshat Hashavua'' ''mdi:book-open-variant'')
        \<lparr>device_class := Some ENUM\<rparr>,
      (description ''holiday'' ''Holiday'' ''mdi:calendar-star'')\<lparr>device_class := Some ENUM\<rparr>,
      description ''omer_count'' ''Day of the Omer'' ''mdi:counter'',
      description ''daf_yomi'' ''Daf Yomi'' ''mdi:book-open-variant'']\<close>

definition TIME_SENSORS :: "SensorEntityDescription list" where
  \<open>TIME_SENSORS =
     [description ''first_light'' ''Alot Hashachar'' ''mdi:weather-sunset-up'',
      description ''talit'' ''Talit and Tefillin'' ''mdi:calendar-clock'',
      description ''sunrise'' ''Hanetz Hachama'' ''mdi:calendar-clock'',
      description ''gra_end_shma'' ''Latest time for Shma Gr"a'' ''mdi:calendar-clock'',
      description ''mga_end_shma'' ''Latest time for Shma MG"A'' ''mdi:calendar-clock'',
      description ''gra_end_tfila'' ''Latest time for Tefilla Gr"a'' ''mdi:calendar-clock'',
      description ''mga_end_tfila'' ''Latest time for Tefilla MG"A'' ''mdi:calendar-clock'',
      description ''midday'' ''Chatzot Hayom'' ''mdi:calendar-clock'',
      description ''big_mincha'' ''Mincha Gedola'' ''mdi:calendar-clock'',
      description ''small_mincha'' ''Mincha Ketana'' ''mdi:calendar-clock'',
      description ''plag_mincha'' ''Plag Hamincha'' ''mdi:weather-sunset-down'',
      description ''sunset'' ''Shkia'' ''mdi:weather-sunset'',
      description ''first_stars'' ''T'set Hakochavim'' ''mdi:weather-night'',
      description ''three_stars'' ''T'set Hakochavim, 3 stars'' ''mdi:weather-night'',
      description ''upcoming_shabbat_candle_lighting'' ''Upcoming Shabbat Candle Lighting''
        ''mdi:candle'',
      description ''upcoming_shabbat_havdalah'' ''Upcoming Shabbat Havdalah''
        ''mdi:weather-night'',
      description ''upcoming_candle_lighting'' ''Upcoming Candle Lighting'' ''mdi:candle'',
      description ''upcoming_havdalah'' ''Upcoming Havdalah'' ''mdi:weather-night'']\<close>

subsection \<open>Construction\<close>

text \<open>
  \<open>__init__\<close>, for either class. \<open>DEFAULT_NAME\<close> is a constant of \<open>const.py\<close>, taken as
  a parameter.
\<close>

definition init :: "sensor_class \<Rightarrow> string \<Rightarrow> string \<Rightarrow> EntryData \<Rightarrow> SensorEntityDescription \<Rightarrow> Sensor" where
  "init c DEFAULT_NAME entry_id data d =
     \<lparr>cls = c,
      entity_description = d,
      attr_name = DEFAULT_NAME @ '' '' @ name d,
      attr_unique_id = entry_id @ ''-'' @ key d,
      location = CONF_LOCATION data,
      hebrew = (CONF_LANGUAGE data = ''hebrew''),
      candle_lighting_offset = CONF_CANDLE_LIGHT_MINUTES data,
      havdalah_offset = CONF_HAVDALAH_OFFSET_MINUTES data,
      diaspora = CONF_DIASPORA data,
      attrs = [],
      attr_native_value = NoneValue,
      attr_options = None\<rparr>"

definition async_setup_entry :: "string \<Rightarrow> string \<Rightarrow> EntryData \<Rightarrow> Sensor list" where
  "async_setup_entry DEFAULT_NAME entry_id entry =
     map (init JewishCalendarSensor DEFAULT_NAME entry_id entry) INFO_SENSORS
     @ map (init JewishCalendarTimeSensor DEFAULT_NAME entry_id entry) TIME_SENSORS"

subsection \<open>Building a time table\<close>

text \<open>
  \<open>make_zmanim\<close> is called with a civil date (\<open>today\<close>, a \<open>gdate\<close>) and, on the last line
  of the time sensor's \<open>get_state\<close>, with the datetime \<open>dt_util.now()\<close>.
\<close>

datatype date_arg = DateArg Date | DateTimeArg datetime

text \<open>
  Modelled from the spec: the constructor of \<open>Zmanim\<close> belongs to the \<open>hdate\<close> library,
  which is not part of the source. It keeps its arguments; the specification has the table
  of a plain daily-time sensor built for the civil date of "now", so a datetime argument
  stands for its civil date in the host's time zone.
\<close>

definition Zmanim_new :: "Host \<Rightarrow> date_arg \<Rightarrow> Location \<Rightarrow> int \<Rightarrow> int \<Rightarrow> bool \<Rightarrow> Zmanim" where
  "Zmanim_new host date loc candle hav heb =
     \<lparr>z_date = (case date of DateArg d \<Rightarrow> d | DateTimeArg t \<Rightarrow> local_date host t),
      z_location = loc,
      z_candle_lighting_offset = candle,
      z_havdalah_offset = hav,
      z_hebrew = heb\<rparr>"

definition make_zmanim :: "Host \<Rightarrow> Sensor \<Rightarrow> date_arg \<Rightarrow> Zmanim" where
  "make_zmanim host self date =
     Zmanim_new host date (location self) (candle_lighting_offset self) (havdalah_offset self)
       (hebrew self)"

subsection \<open>Deriving the value\<close>

text \<open>
  The result of \<open>get_state\<close>: the sensor after the assignments to \<open>self._attrs\<close> and
  \<open>self._attr_options\<close>, the calls made, and the returned value or the exception raised.
\<close>

type_synonym state_result = "Sensor \<times> call list \<times> (py_error + native_value)"

text \<open>A property that is \<open>None\<close> or a datetime, as the returned value.\<close>

definition optional_time :: "datetime option \<Rightarrow> native_value" where
  "optional_time t = (case t of None \<Rightarrow> NoneValue | Some v \<Rightarrow> TimeValue v)"

text \<open>\<open>JewishCalendarSensor.get_state\<close>.\<close>

definition get_state :: "Library \<Rightarrow> Sensor \<Rightarrow> HDate \<Rightarrow> HDate \<Rightarrow> HDate \<Rightarrow> state_result" where
  "get_state lib self daytime_date after_shkia_date after_tzais_date =
     (if key (entity_description self) = ''date'' then
        (let hd = hdate lib after_shkia_date in
         case py_index (MONTHS lib) (month_value hd - 1) of
           Inl e \<Rightarrow> (self, [], Inl e)
         | Inr month \<Rightarrow>
             (self\<lparr>attrs :=
                [(''hebrew_year'', AttrInt (year hd)),
                 (''hebrew_month_name'',
                    AttrStr (if hebrew self then lang_hebrew month else lang_english month)),
                 (''hebrew_day'', AttrInt (day hd))]\<rparr>,
              [], Inr (StrValue (hebrew_date lib after_shkia_date))))
      else if key (entity_description self) = ''weekly_portion'' then
        (self\<lparr>attr_options :=
           Some (map (\<lambda>p. if hebrew self then lang_hebrew p else lang_english p)
                   (PARASHAOT lib))\<rparr>,
         [], Inr (StrValue (parasha lib (upcoming_shabbat lib after_tzais_date))))
      else if key (entity_description self) = ''holiday'' then
        (self\<lparr>attrs :=
           [(''id'', AttrStr (holiday_name lib after_shkia_date)),
            (''type'', AttrStr (holiday_type_name lib after_shkia_date)),
            (''type_id'', AttrInt (holiday_type_value lib after_shkia_date))],
              attr_options :=
           Some (map (\<lambda>h. if hebrew self then description_hebrew_long h
                           else description_english h)
                   (HOLIDAYS lib))\<rparr>,
         [], Inr (StrValue (holiday_description lib after_shkia_date)))
      else if key (entity_description self) = ''omer_count'' then
        (self, [], Inr (IntValue (omer_day lib after_shkia_date)))
      else if key (entity_description self) = ''daf_yomi'' then
        (self, [], Inr (StrValue (daf_yomi lib daytime_date)))
      else (self, [], Inr NoneValue))"

text \<open>
  \<open>JewishCalendarTimeSensor.get_state\<close>. \<open>now2\<close> is what the clock returns when the last
  line reads it again (\<open>dt_util.now()\<close>, a second read after the one of \<open>async_update\<close>).
\<close>

definition get_state_time ::
  "Host \<Rightarrow> Library \<Rightarrow> datetime \<Rightarrow> Sensor \<Rightarrow> HDate \<Rightarrow> HDate \<Rightarrow> HDate \<Rightarrow> state_result" where
  "get_state_time host lib now2 self daytime_date after_shkia_date after_tzais_date =
     (if key (entity_description self) = ''upcoming_shabbat_candle_lighting'' then
        (let times = make_zmanim host self
               (DateArg (gdate (previous_day (upcoming_shabbat lib after_tzais_date))))
         in (self, [ZmanimBuilt times], Inr (optional_time (candle_lighting lib times))))
      else if key (entity_description self) = ''upcoming_candle_lighting'' then
        (let times = make_zmanim host self
               (DateArg (gdate (previous_day
                  (first_day lib (upcoming_shabbat_or_yom_tov lib after_tzais_date)))))
         in (self, [ZmanimBuilt times], Inr (optional_time (candle_lighting lib times))))
      else if key (entity_description self) = ''upcoming_shabbat_havdalah'' then
        (let times = make_zmanim host self
               (DateArg (gdate (upcoming_shabbat lib after_tzais_date)))
         in (self, [ZmanimBuilt times], Inr (optional_time (havdalah lib times))))
      else if key (entity_description self) = ''upcoming_havdalah'' then
        (let times = make_zmanim host self
               (DateArg (gdate (last_day lib (upcoming_shabbat_or_yom_tov lib after_tzais_date))))
         in (self, [ZmanimBuilt times], Inr (optional_time (havdalah lib times))))
      else
        (let table = make_zmanim host self (DateTimeArg now2);
             times = zmanim lib table
         in (self, [NowRead now2, ZmanimBuilt table],
             case py_getitem times (key (entity_description self)) of
               Inl e \<Rightarrow> Inl e
             | Inr t \<Rightarrow> Inr (TimeValue t))))"

text \<open>\<open>self.get_state(...)\<close>: the method of the sensor's class.\<close>

definition call_get_state ::
  "Host \<Rightarrow> Library \<Rightarrow> datetime \<Rightarrow> Sensor \<Rightarrow> HDate \<Rightarrow> HDate \<Rightarrow> HDate \<Rightarrow> state_result" where
  "call_get_state host lib now2 self daytime_date after_shkia_date after_tzais_date =
     (case cls self of
        JewishCalendarSensor \<Rightarrow>
          get_state lib self daytime_date after_shkia_date after_tzais_date
      | JewishCalendarTimeSensor \<Rightarrow>
          get_state_time host lib now2 self daytime_date after_shkia_date after_tzais_date)"

subsection \<open>The update\<close>

text \<open>
  Lines 214 to 231 of \<open>async_update\<close>: the three readings of "today", in the order
  \<open>(daytime_date, after_shkia_date, after_tzais_date)\<close>. A datetime is always true in a
  condition, so \<open>today_times.havdalah and now > today_times.havdalah\<close> holds when the
  havdalah time is not \<open>None\<close> and \<open>now\<close> is after it.
\<close>

definition day_boundaries ::
  "Host \<Rightarrow> Library \<Rightarrow> Sensor \<Rightarrow> datetime \<Rightarrow> Date \<Rightarrow> datetime \<Rightarrow> HDate \<times> HDate \<times> HDate" where
  "day_boundaries host lib self now today sunset =
     (let daytime_date = \<lparr>gdate = today, hd_diaspora = diaspora self, hd_hebrew = hebrew self\<rparr>;
          today_times = make_zmanim host self (DateArg today);
          after_shkia_date = (if now > sunset then next_day daytime_date else daytime_date);
          after_tzais_date =
            (case havdalah lib today_times of
               None \<Rightarrow> daytime_date
             | Some h \<Rightarrow> if now > h then next_day daytime_date else daytime_date)
      in (daytime_date, after_shkia_date, after_tzais_date))"

text \<open>
  \<open>async_update\<close>: \<open>now\<close> is the clock read on its first line. The result is the sensor
  after the update, the calls made, and \<open>Inr ()\<close> when the method returns, \<open>Inl e\<close> when
  \<open>get_state\<close> raises \<open>e\<close> (then \<open>attr_native_value\<close> is not assigned).
\<close>

definition async_update ::
  "Host \<Rightarrow> Library \<Rightarrow> datetime \<Rightarrow> datetime \<Rightarrow> Sensor \<Rightarrow> Sensor \<times> call list \<times> (py_error + unit)" where
  "async_update host lib now now2 self =
     (let today = local_date host now in
      case get_astral_event_date host today of
        None \<Rightarrow> (self, [NowRead now, SunsetLookup today, ErrorLogged today], Inr ())
      | Some event_date \<Rightarrow>
          (let sunset = as_local event_date;
               (daytime_date, after_shkia_date, after_tzais_date) =
                  day_boundaries host lib self now today sunset;
               before = [NowRead now, SunsetLookup today, HDateBuilt daytime_date,
                         ZmanimBuilt (make_zmanim host self (DateArg today))]
           in case call_get_state host lib now2 self daytime_date after_shkia_date
                     after_tzais_date of
                (self', calls, Inl e) \<Rightarrow> (self', before @ calls, Inl e)
              | (self', calls, Inr v) \<Rightarrow>
                  (self'\<lparr>attr_native_value := v\<rparr>, before @ calls, Inr ())))"

text \<open>
  The host polls a sensor again and again; each poll has its two clock readings. An
  exception of one poll is the host's to log, and the next poll runs on the sensor as that
  poll left it.
\<close>

fun polls :: "Host \<Rightarrow> Library \<Rightarrow> (datetime \<times> datetime) list \<Rightarrow> Sensor \<Rightarrow> Sensor" where
  "polls host lib [] self = self"
| "polls host lib ((now, now2) # rest) self =
     polls host lib rest (fst (async_update host lib now now2 self))"

subsection \<open>The keys the two dispatchers name\<close>

text \<open>The keys of the five branches of \<open>JewishCalendarSensor.get_state\<close>.\<close>

definition info_keys :: "string list" where
  "info_keys = [''date'', ''weekly_portion'', ''holiday'', ''omer_count'', ''daf_yomi'']"

text \<open>The keys of the four branches of \<open>JewishCalendarTimeSensor.get_state\<close>.\<close>

definition upcoming_keys :: "string list" where
  "upcoming_keys = [''upcoming_shabbat_candle_lighting'', ''upcoming_candle_lighting'',
     ''upcoming_shabbat_havdalah'', ''upcoming_havdalah'']"

subsection \<open>A small world to run the definitions in\<close>

text \<open>
  Instants are seconds, civil dates are days of 86400 seconds, the sun sets at 18:45
  every day, and 738778 is Friday 2023-09-15 (29 Elul 5783), the eve of a Sabbath.
  The library is a stand-in with few entries: Hebrew texts are written in Latin letters,
  there are no festivals, and havdalah exists on Saturdays only.
\<close>

definition example_host :: Host where
  "example_host =
     \<lparr>get_astral_event_date = (\<lambda>d. Some (d * 86400 + 67500)),
      local_date = (\<lambda>t. t div 86400)\<rparr>"

text \<open>A host at a place and season where the sun does not set.\<close>

definition polar_host :: Host where
  "polar_host =
     \<lparr>get_astral_event_date = (\<lambda>d. None),
      local_date = (\<lambda>t. t div 86400)\<rparr>"

definition example_shabbat :: "HDate \<Rightarrow> HDate" where
  "example_shabbat d = d\<lparr>gdate := gdate d + (5 - (gdate d - 1) mod 7) mod 7\<rparr>"

definition example_lib :: Library where
  "example_lib =
     \<lparr>MONTHS =
        [\<lparr>lang_english = ''Tishrei'', lang_hebrew = ''tishrei''\<rparr>,
         \<lparr>lang_english = ''Marcheshvan'', lang_hebrew = ''marcheshvan''\<rparr>,
         \<lparr>lang_english = ''Elul'', lang_hebrew = ''elul''\<rparr>],
      PARASHAOT =
        [\<lparr>lang_english = ''none'', lang_hebrew = ''ein''\<rparr>,
         \<lparr>lang_english = ''Bereshit'', lang_hebrew = ''bereshit''\<rparr>,
         \<lparr>lang_english = ''Haazinu'', lang_hebrew = ''haazinu''\<rparr>],
      HOLIDAYS =
        [\<lparr>description_hebrew_long = ''erev rosh hashana'',
          description_english = ''Erev Rosh Hashana''\<rparr>,
         \<lparr>description_hebrew_long = ''rosh hashana alef'',
          description_english = ''Rosh Hashana I''\<rparr>],
      hdate =
        (\<lambda>d. if gdate d < 738779
              then \<lparr>year = 5783, month_value = 3, day = 29 + (gdate d - 738778)\<rparr>
              else \<lparr>year = 5784, month_value = 1, day = gdate d - 738778\<rparr>),
      hebrew_date = (\<lambda>d. if gdate d < 738779 then ''Elul 5783'' else ''Tishrei 5784''),
      parasha = (\<lambda>d. if gdate d < 738786 then ''none'' else ''Haazinu''),
      holiday_name = (\<lambda>d. if gdate d = 738779 then ''rosh_hashana_i'' else ''''),
      holiday_type_name = (\<lambda>d. if gdate d = 738779 then ''YOM_TOV'' else ''UNKNOWN''),
      holiday_type_value = (\<lambda>d. if gdate d = 738779 then 1 else 0),
      holiday_description = (\<lambda>d. if gdate d = 738779 then ''Rosh Hashana I'' else ''''),
      omer_day = (\<lambda>d. 0),
      daf_yomi = (\<lambda>d. if gdate d = 738778 then ''Kiddushin 33'' else ''Kiddushin 34''),
      upcoming_shabbat = example_shabbat,
      upcoming_shabbat_or_yom_tov = example_shabbat,
      first_day = (\<lambda>d. d),
      last_day = (\<lambda>d. d),
      candle_lighting =
        (\<lambda>z. Some (z_date z * 86400 + 67500 - 60 * z_candle_lighting_offset z)),
      havdalah =
        (\<lambda>z. if (z_date z - 1) mod 7 = 5
              then Some (z_date z * 86400 + 67500 + 60 * z_havdalah_offset z)
              else None),
      zmanim =
        (\<lambda>z. [(''sunrise'', z_date z * 86400 + 21600),
              (''midday'', z_date z * 86400 + 43200),
              (''sunset'', z_date z * 86400 + 67500)])\<rparr>"

definition example_entry :: EntryData where
  "example_entry =
     \<lparr>CONF_LOCATION = ''Jerusalem'',
      CONF_LANGUAGE = ''english'',
      CONF_CANDLE_LIGHT_MINUTES = 40,
      CONF_HAVDALAH_OFFSET_MINUTES = 50,
      CONF_DIASPORA = False\<rparr>"

text \<open>The Hebrew date of a civil date, as the example entry configures it.\<close>

definition example_date :: "Date \<Rightarrow> HDate" where
  "example_date d = \<lparr>gdate = d, hd_diaspora = False, hd_hebrew = False\<rparr>"

text \<open>The sensor of a class for a key, with the example entry.\<close>

definition example_sensor :: "sensor_class \<Rightarrow> string \<Rightarrow> Sensor" where
  "example_sensor c k =
     init c ''Jewish Calendar'' ''entry'' example_entry (description k k ''mdi:calendar-clock'')"

text \<open>Two sensors of the catalog, as \<open>async_setup_entry\<close> creates them, and two polls on
  Friday 2023-09-15, at 17:00 and at 19:00.\<close>

definition example_date_sensor :: Sensor where
  "example_date_sensor =
     init JewishCalendarSensor ''Jewish Calendar'' ''entry'' example_entry (INFO_SENSORS ! 0)"

definition example_sunset_sensor :: Sensor where
  "example_sunset_sensor =
     init JewishCalendarTimeSensor ''Jewish Calendar'' ''entry'' example_entry (TIME_SENSORS ! 11)"

definition example_readings :: "(datetime \<times> datetime) list" where
  "example_readings =
     [(738778 * 86400 + 61200, 738778 * 86400 + 61201),
      (738778 * 86400 + 68400, 738778 * 86400 + 68401)]"

section \<open>Properties\<close>

text \<open>The definitions of the small world, for evaluating examples.\<close>

lemmas example_defs = example_host_def example_lib_def example_sensor_def example_entry_def
  init_def description_def example_shabbat_def polar_host_def example_date_def

subsection \<open>Day-boundary resolution\<close>

text \<open>
  C1. When the sunset lookup for today (the civil date of \<open>now\<close>) returns a sunset,
  \<open>async_update\<close> calls \<open>get_state\<close> with three dates and publishes what it returns
  (or raises what it raises). The three dates are: the plain date, the Hebrew date of
  today; the after-sunset date, the plain date when \<open>now\<close> is not after the sunset and its
  next day when it is; the after-nightfall date, the plain date when today's table has no
  havdalah time or \<open>now\<close> is not after it, and the next day when it has one and \<open>now\<close> is
  after it.
\<close>

theorem day_boundaries_postcondition:
  assumes "get_astral_event_date host (local_date host now) = Some event_date"
  shows "\<exists>plain after_sunset after_nightfall.
      async_update host lib now now2 self =
        (case call_get_state host lib now2 self plain after_sunset after_nightfall of
           (self', calls, Inl e) \<Rightarrow>
             (self',
              [NowRead now, SunsetLookup (local_date host now), HDateBuilt plain,
               ZmanimBuilt (make_zmanim host self (DateArg (local_date host now)))] @ calls,
              Inl e)
         | (self', calls, Inr v) \<Rightarrow>
             (self'\<lparr>attr_native_value := v\<rparr>,
              [NowRead now, SunsetLookup (local_date host now), HDateBuilt plain,
               ZmanimBuilt (make_zmanim host self (DateArg (local_date host now)))] @ calls,
              Inr ()))
    \<and> plain = \<lparr>gdate = local_date host now, hd_diaspora = diaspora self,
                hd_hebrew = hebrew self\<rparr>
    \<and> (now \<le> as_local event_date \<longrightarrow> after_sunset = plain)
    \<and> (now > as_local event_date \<longrightarrow> after_sunset = next_day plain)
    \<and> (havdalah lib (make_zmanim host self (DateArg (local_date host now))) = None
          \<longrightarrow> after_nightfall = plain)
    \<and> (\<forall>h. havdalah lib (make_zmanim host self (DateArg (local_date host now))) = Some h \<longrightarrow>
          (now \<le> h \<longrightarrow> after_nightfall = plain)
          \<and> (now > h \<longrightarrow> after_nightfall = next_day plain))"
proof -
  obtain plain after_sunset after_nightfall
    where b: "day_boundaries host lib self now (local_date host now) (as_local event_date)
      = (plain, after_sunset, after_nightfall)"
    by (cases "day_boundaries host lib self now (local_date host now) (as_local event_date)")
  have p: "plain = \<lparr>gdate = local_date host now, hd_diaspora = diaspora self,
      hd_hebrew = hebrew self\<rparr>"
    and s: "after_sunset = (if now > as_local event_date then next_day plain else plain)"
    and n: "after_nightfall =
      (case havdalah lib (make_zmanim host self (DateArg (local_date host now))) of
         None \<Rightarrow> plain
       | Some h \<Rightarrow> if now > h then next_day plain else plain)"
    using b by (auto simp: day_boundaries_def Let_def)
  have u: "async_update host lib now now2 self =
        (case call_get_state host lib now2 self plain after_sunset after_nightfall of
           (self', calls, Inl e) \<Rightarrow>
             (self',
              [NowRead now, SunsetLookup (local_date host now), HDateBuilt plain,
               ZmanimBuilt (make_zmanim host self (DateArg (local_date host now)))] @ calls,
              Inl e)
         | (self', calls, Inr v) \<Rightarrow>
             (self'\<lparr>attr_native_value := v\<rparr>,
              [NowRead now, SunsetLookup (local_date host now), HDateBuilt plain,
               ZmanimBuilt (make_zmanim host self (DateArg (local_date host now)))] @ calls,
              Inr ()))"
    using assms by (simp add: async_update_def Let_def b split: prod.splits sum.splits)
  have s1: "now \<le> as_local event_date \<longrightarrow> after_sunset = plain"
    and s2: "now > as_local event_date \<longrightarrow> after_sunset = next_day plain"
    using s by simp_all
  have n1: "havdalah lib (make_zmanim host self (DateArg (local_date host now))) = None
          \<longrightarrow> after_nightfall = plain"
    and n2: "\<forall>h. havdalah lib (make_zmanim host self (DateArg (local_date host now))) = Some h \<longrightarrow>
          (now \<le> h \<longrightarrow> after_nightfall = plain)
          \<and> (now > h \<longrightarrow> after_nightfall = next_day plain)"
    using n by simp_all
  from u p s1 s2 n1 n2 show ?thesis
    by (intro exI [of _ plain] exI [of _ after_sunset] exI [of _ after_nightfall] conjI)
qed

text \<open>
  Saturday 2023-09-16 at 19:00, between the sunset (18:45) and havdalah (19:35): the
  after-sunset date has advanced, so the \<open>date\<close> sensor publishes 2 Tishrei; the
  after-nightfall date has not, so the \<open>weekly_portion\<close> sensor still publishes the portion
  of this Sabbath.
\<close>

theorem day_boundaries_postcondition_witness:
  "get_astral_event_date example_host (local_date example_host (738779 * 86400 + 68400))
      = Some (738779 * 86400 + 67500)
   \<and> havdalah example_lib (make_zmanim example_host
        (example_sensor JewishCalendarSensor ''date'')
        (DateArg (local_date example_host (738779 * 86400 + 68400))))
      = Some (738779 * 86400 + 70500)
   \<and> (738779 * 86400 + 68400 :: int) > as_local (738779 * 86400 + 67500)
   \<and> (738779 * 86400 + 68400 :: int) \<le> 738779 * 86400 + 70500
   \<and> async_update example_host example_lib (738779 * 86400 + 68400) (738779 * 86400 + 68401)
        (example_sensor JewishCalendarSensor ''date'')
      = ((example_sensor JewishCalendarSensor ''date'')
           \<lparr>attrs := [(''hebrew_year'', AttrInt 5784), (''hebrew_month_name'', AttrStr ''Tishrei''),
                      (''hebrew_day'', AttrInt 2)],
            attr_native_value := StrValue ''Tishrei 5784''\<rparr>,
         [NowRead (738779 * 86400 + 68400), SunsetLookup 738779,
          HDateBuilt (example_date 738779),
          ZmanimBuilt \<lparr>z_date = 738779, z_location = ''Jerusalem'', z_candle_lighting_offset = 40,
                       z_havdalah_offset = 50, z_hebrew = False\<rparr>],
         Inr ())
   \<and> async_update example_host example_lib (738779 * 86400 + 68400) (738779 * 86400 + 68401)
        (example_sensor JewishCalendarSensor ''weekly_portion'')
      = ((example_sensor JewishCalendarSensor ''weekly_portion'')
           \<lparr>attr_native_value := StrValue ''none'',
            attr_options := Some [''none'', ''Bereshit'', ''Haazinu'']\<rparr>,
         [NowRead (738779 * 86400 + 68400), SunsetLookup 738779,
          HDateBuilt (example_date 738779),
          ZmanimBuilt \<lparr>z_date = 738779, z_location = ''Jerusalem'', z_candle_lighting_offset = 40,
                       z_havdalah_offset = 50, z_hebrew = False\<rparr>],
         Inr ())"
proof -
  have h: "get_astral_event_date example_host (local_date example_host (738779 * 86400 + 68400))
      = Some (738779 * 86400 + 67500)"
    by (simp add: example_defs)
  have v: "havdalah example_lib (make_zmanim example_host
        (example_sensor JewishCalendarSensor ''date'')
        (DateArg (local_date example_host (738779 * 86400 + 68400))))
      = Some (738779 * 86400 + 70500)"
    by (simp add: make_zmanim_def Zmanim_new_def example_defs)
  have g1: "call_get_state example_host example_lib n2
        (example_sensor JewishCalendarSensor ''date'')
        (example_date 738779) (example_date 738780) (example_date 738779)
      = ((example_sensor JewishCalendarSensor ''date'')
          \<lparr>attrs := [(''hebrew_year'', AttrInt 5784), (''hebrew_month_name'', AttrStr ''Tishrei''),
             (''hebrew_day'', AttrInt 2)]\<rparr>, [], Inr (StrValue ''Tishrei 5784''))" for n2
    by (simp add: call_get_state_def get_state_def py_index_def example_defs)
  have g2: "call_get_state example_host example_lib n2
        (example_sensor JewishCalendarSensor ''weekly_portion'')
        (example_date 738779) (example_date 738780) (example_date 738779)
      = ((example_sensor JewishCalendarSensor ''weekly_portion'')
          \<lparr>attr_options := Some [''none'', ''Bereshit'', ''Haazinu'']\<rparr>, [],
         Inr (StrValue ''none''))" for n2
    by (simp add: call_get_state_def get_state_def example_defs)
  have u: "\<exists>calls r self'.
      call_get_state example_host example_lib (738779 * 86400 + 68401)
        (example_sensor JewishCalendarSensor k)
        (example_date 738779) (example_date 738780) (example_date 738779) = (self', calls, r)
      \<and> async_update example_host example_lib (738779 * 86400 + 68400)
            (738779 * 86400 + 68401) (example_sensor JewishCalendarSensor k) =
          (case r of Inl e \<Rightarrow> self' | Inr v \<Rightarrow> self'\<lparr>attr_native_value := v\<rparr>,
           [NowRead (738779 * 86400 + 68400), SunsetLookup 738779,
            HDateBuilt (example_date 738779),
            ZmanimBuilt \<lparr>z_date = 738779, z_location = ''Jerusalem'',
              z_candle_lighting_offset = 40, z_havdalah_offset = 50, z_hebrew = False\<rparr>] @ calls,
           case r of Inl e \<Rightarrow> Inl e | Inr v \<Rightarrow> Inr ())" for k
  proof -
    from day_boundaries_postcondition [OF h, of example_lib "738779 * 86400 + 68401"
        "example_sensor JewishCalendarSensor k"]
    obtain p s n where
      U: "async_update example_host example_lib (738779 * 86400 + 68400)
            (738779 * 86400 + 68401) (example_sensor JewishCalendarSensor k) =
        (case call_get_state example_host example_lib (738779 * 86400 + 68401)
                (example_sensor JewishCalendarSensor k) p s n of
           (self', calls, Inl e) \<Rightarrow>
             (self',
              [NowRead (738779 * 86400 + 68400),
               SunsetLookup (local_date example_host (738779 * 86400 + 68400)),
               HDateBuilt p,
               ZmanimBuilt (make_zmanim example_host (example_sensor JewishCalendarSensor k)
                 (DateArg (local_date example_host (738779 * 86400 + 68400))))] @ calls,
              Inl e)
         | (self', calls, Inr v) \<Rightarrow>
             (self'\<lparr>attr_native_value := v\<rparr>,
              [NowRead (738779 * 86400 + 68400),
               SunsetLookup (local_date example_host (738779 * 86400 + 68400)),
               HDateBuilt p,
               ZmanimBuilt (make_zmanim example_host (example_sensor JewishCalendarSensor k)
                 (DateArg (local_date example_host (738779 * 86400 + 68400))))] @ calls,
              Inr ()))"
      and P: "p = \<lparr>gdate = local_date example_host (738779 * 86400 + 68400),
            hd_diaspora = diaspora (example_sensor JewishCalendarSensor k),
            hd_hebrew = hebrew (example_sensor JewishCalendarSensor k)\<rparr>"
      and S: "738779 * 86400 + 68400 > as_local (738779 * 86400 + 67500) \<longrightarrow> s = next_day p"
      and N: "\<forall>h. havdalah example_lib (make_zmanim example_host
            (example_sensor JewishCalendarSensor k)
            (DateArg (local_date example_host (738779 * 86400 + 68400)))) = Some h \<longrightarrow>
          (738779 * 86400 + 68400 \<le> h \<longrightarrow> n = p)
          \<and> (738779 * 86400 + 68400 > h \<longrightarrow> n = next_day p)"
      by (elim exE conjE)
    have p: "p = example_date 738779"
      using P by (simp add: example_defs)
    have s: "s = example_date 738780"
      using S by (simp add: as_local_def p next_day_def example_defs)
    have n: "n = example_date 738779"
      using N by (simp add: p make_zmanim_def Zmanim_new_def example_defs)
    obtain self' calls r where c: "call_get_state example_host example_lib (738779 * 86400 + 68401)
        (example_sensor JewishCalendarSensor k)
        (example_date 738779) (example_date 738780) (example_date 738779) = (self', calls, r)"
      using prod_cases3 by blast
    have "async_update example_host example_lib (738779 * 86400 + 68400)
            (738779 * 86400 + 68401) (example_sensor JewishCalendarSensor k) =
          (case r of Inl e \<Rightarrow> self' | Inr v \<Rightarrow> self'\<lparr>attr_native_value := v\<rparr>,
           [NowRead (738779 * 86400 + 68400), SunsetLookup 738779,
            HDateBuilt (example_date 738779),
            ZmanimBuilt \<lparr>z_date = 738779, z_location = ''Jerusalem'',
              z_candle_lighting_offset = 40, z_havdalah_offset = 50, z_hebrew = False\<rparr>] @ calls,
           case r of Inl e \<Rightarrow> Inl e | Inr v \<Rightarrow> Inr ())"
      unfolding U p s n c
      by (cases r) (simp_all add: make_zmanim_def Zmanim_new_def example_defs)
    with c show ?thesis by blast
  qed
  have a1: "async_update example_host example_lib (738779 * 86400 + 68400) (738779 * 86400 + 68401)
        (example_sensor JewishCalendarSensor ''date'')
      = ((example_sensor JewishCalendarSensor ''date'')
           \<lparr>attrs := [(''hebrew_year'', AttrInt 5784), (''hebrew_month_name'', AttrStr ''Tishrei''),
                      (''hebrew_day'', AttrInt 2)],
            attr_native_value := StrValue ''Tishrei 5784''\<rparr>,
         [NowRead (738779 * 86400 + 68400), SunsetLookup 738779,
          HDateBuilt (example_date 738779),
          ZmanimBuilt \<lparr>z_date = 738779, z_location = ''Jerusalem'', z_candle_lighting_offset = 40,
                       z_havdalah_offset = 50, z_hebrew = False\<rparr>],
         Inr ())"
    using u [of "''date''"] unfolding g1 by auto
  have a2: "async_update example_host example_lib (738779 * 86400 + 68400) (738779 * 86400 + 68401)
        (example_sensor JewishCalendarSensor ''weekly_portion'')
      = ((example_sensor JewishCalendarSensor ''weekly_portion'')
           \<lparr>attr_native_value := StrValue ''none'',
            attr_options := Some [''none'', ''Bereshit'', ''Haazinu'']\<rparr>,
         [NowRead (738779 * 86400 + 68400), SunsetLookup 738779,
          HDateBuilt (example_date 738779),
          ZmanimBuilt \<lparr>z_date = 738779, z_location = ''Jerusalem'', z_candle_lighting_offset = 40,
                       z_havdalah_offset = 50, z_hebrew = False\<rparr>],
         Inr ())"
    using u [of "''weekly_portion''"] unfolding g2 by (auto simp: example_defs)
  show ?thesis
    using h v a1 a2 by (simp add: as_local_def)
qed

text \<open>
  C2 as stated (the after-nightfall day index is at least the after-sunset one) fails on
  Friday 2023-09-15 at 19:00: the sun has set at 18:45, so the after-sunset date is the
  16th, and Friday's table has no havdalah time, so the after-nightfall date is the 15th.
\<close>

theorem day_index_order_counterexample:
  "day_boundaries example_host example_lib (example_sensor JewishCalendarSensor ''date'')
     (738778 * 86400 + 68400) 738778 (738778 * 86400 + 67500)
   = (\<lparr>gdate = 738778, hd_diaspora = False, hd_hebrew = False\<rparr>,
      \<lparr>gdate = 738779, hd_diaspora = False, hd_hebrew = False\<rparr>,
      \<lparr>gdate = 738778, hd_diaspora = False, hd_hebrew = False\<rparr>)
   \<and> get_astral_event_date example_host 738778 = Some (738778 * 86400 + 67500)
   \<and> \<not> (gdate \<lparr>gdate = 738778, hd_diaspora = False, hd_hebrew = False\<rparr>
          \<ge> gdate \<lparr>gdate = 738779, hd_diaspora = False, hd_hebrew = False\<rparr>)"
  by (simp add: day_boundaries_def Let_def make_zmanim_def Zmanim_new_def next_day_def example_defs)

text \<open>
  C2, amended. The after-sunset and the after-nightfall day index are each the plain one
  or the plain one plus one; the after-nightfall index is at least the after-sunset index
  exactly when \<open>now\<close> is not after the sunset, or a havdalah time exists and \<open>now\<close> is
  after it.
\<close>

theorem day_index_order:
  assumes "day_boundaries host lib self now today sunset = (plain, after_sunset, after_nightfall)"
  shows "gdate plain \<le> gdate after_sunset \<and> gdate after_sunset \<le> gdate plain + 1
    \<and> gdate plain \<le> gdate after_nightfall \<and> gdate after_nightfall \<le> gdate plain + 1
    \<and> (gdate after_sunset \<le> gdate after_nightfall \<longleftrightarrow>
         (now \<le> sunset
          \<or> (\<exists>h. havdalah lib (make_zmanim host self (DateArg today)) = Some h \<and> now > h)))"
  using assms by (auto simp: day_boundaries_def Let_def next_day_def split: option.splits if_splits)

text \<open>Saturday 2023-09-16 at 20:00, after havdalah: both dates have advanced.\<close>

theorem day_index_order_witness:
  "day_boundaries example_host example_lib (example_sensor JewishCalendarSensor ''date'')
     (738779 * 86400 + 72000) 738779 (738779 * 86400 + 67500)
   = (\<lparr>gdate = 738779, hd_diaspora = False, hd_hebrew = False\<rparr>,
      \<lparr>gdate = 738780, hd_diaspora = False, hd_hebrew = False\<rparr>,
      \<lparr>gdate = 738780, hd_diaspora = False, hd_hebrew = False\<rparr>)
   \<and> (gdate \<lparr>gdate = 738780, hd_diaspora = False, hd_hebrew = False\<rparr>
        \<le> gdate \<lparr>gdate = 738780, hd_diaspora = False, hd_hebrew = False\<rparr>)
   \<and> havdalah example_lib (make_zmanim example_host
        (example_sensor JewishCalendarSensor ''date'') (DateArg 738779))
      = Some (738779 * 86400 + 70500)
   \<and> (738779 * 86400 + 72000 :: int) > 738779 * 86400 + 70500"
proof -
  have h: "day_boundaries example_host example_lib (example_sensor JewishCalendarSensor ''date'')
     (738779 * 86400 + 72000) 738779 (738779 * 86400 + 67500)
   = (\<lparr>gdate = 738779, hd_diaspora = False, hd_hebrew = False\<rparr>,
      \<lparr>gdate = 738780, hd_diaspora = False, hd_hebrew = False\<rparr>,
      \<lparr>gdate = 738780, hd_diaspora = False, hd_hebrew = False\<rparr>)"
    by (simp add: day_boundaries_def Let_def make_zmanim_def Zmanim_new_def next_day_def example_defs)
  have h2: "havdalah example_lib (make_zmanim example_host
        (example_sensor JewishCalendarSensor ''date'') (DateArg 738779))
      = Some (738779 * 86400 + 70500)"
    by (simp add: make_zmanim_def Zmanim_new_def example_defs)
  show ?thesis
    using day_index_order [OF h] h h2 by simp
qed

subsection \<open>No sunset data\<close>

text \<open>
  C6. When the sunset lookup for today returns \<open>None\<close>, the update returns at once: the
  sensor (value, attributes, options and every other field) is what it was, and the only
  calls are the clock read, the lookup and the error log line; no \<open>HDate\<close> and no time
  table is built.
\<close>

theorem no_sunset_data_skips_cycle:
  assumes "get_astral_event_date host (local_date host now) = None"
  shows "async_update host lib now now2 self
         = (self, [NowRead now, SunsetLookup (local_date host now),
                   ErrorLogged (local_date host now)], Inr ())"
  using assms by (simp add: async_update_def Let_def)

text \<open>The same at a host where the sun does not set.\<close>

theorem no_sunset_data_skips_cycle_witness:
  "get_astral_event_date polar_host (local_date polar_host (738778 * 86400 + 61200)) = None
   \<and> async_update polar_host example_lib (738778 * 86400 + 61200) (738778 * 86400 + 61201)
        (example_sensor JewishCalendarSensor ''date'')
      = (example_sensor JewishCalendarSensor ''date'',
         [NowRead (738778 * 86400 + 61200), SunsetLookup 738778, ErrorLogged 738778], Inr ())"
proof -
  have h: "get_astral_event_date polar_host (local_date polar_host (738778 * 86400 + 61200)) = None"
    by (simp add: polar_host_def)
  show ?thesis
    using no_sunset_data_skips_cycle [OF h, of example_lib "738778 * 86400 + 61201"
        "example_sensor JewishCalendarSensor ''date''"]
    by (simp add: polar_host_def)
qed

subsection \<open>Deriving the value of an info sensor\<close>

lemma py_index_in_range:
  "1 \<le> m \<Longrightarrow> m \<le> int (length xs) \<Longrightarrow> py_index xs (m - 1) = Inr (xs ! nat (m - 1))"
  by (simp add: py_index_def)

text \<open>
  C3. What each branch of \<open>get_state\<close> reads: \<open>date\<close> returns the Hebrew date of the
  after-sunset date, with the year, the month name (of the month's entry in \<open>MONTHS\<close>, a
  month value in the table's range) and the day of that same date as attributes;
  \<open>weekly_portion\<close> returns the Torah portion of the upcoming Sabbath of the
  after-nightfall date; \<open>holiday\<close> returns the holiday description of the after-sunset
  date, with its name, type name and type value as \<open>id\<close>, \<open>type\<close> and \<open>type_id\<close>;
  \<open>omer_count\<close> returns the Omer day of the after-sunset date; \<open>daf_yomi\<close> returns the
  Talmud page of the plain date.
\<close>

theorem info_sensor_derivation:
  "(key (entity_description self) = ''date''
      \<and> 1 \<le> month_value (hdate lib after_shkia)
      \<and> month_value (hdate lib after_shkia) \<le> int (length (MONTHS lib)) \<longrightarrow>
      get_state lib self plain after_shkia after_tzais =
        (self\<lparr>attrs :=
           [(''hebrew_year'', AttrInt (year (hdate lib after_shkia))),
            (''hebrew_month_name'',
               AttrStr (if hebrew self
                  then lang_hebrew (MONTHS lib ! nat (month_value (hdate lib after_shkia) - 1))
                  else lang_english (MONTHS lib ! nat (month_value (hdate lib after_shkia) - 1)))),
            (''hebrew_day'', AttrInt (day (hdate lib after_shkia)))]\<rparr>,
         [], Inr (StrValue (hebrew_date lib after_shkia))))
   \<and> (key (entity_description self) = ''weekly_portion'' \<longrightarrow>
        get_state lib self plain after_shkia after_tzais =
          (self\<lparr>attr_options :=
             Some (map (\<lambda>p. if hebrew self then lang_hebrew p else lang_english p)
                     (PARASHAOT lib))\<rparr>,
           [], Inr (StrValue (parasha lib (upcoming_shabbat lib after_tzais)))))
   \<and> (key (entity_description self) = ''holiday'' \<longrightarrow>
        get_state lib self plain after_shkia after_tzais =
          (self\<lparr>attrs :=
             [(''id'', AttrStr (holiday_name lib after_shkia)),
              (''type'', AttrStr (holiday_type_name lib after_shkia)),
              (''type_id'', AttrInt (holiday_type_value lib after_shkia))],
                attr_options :=
             Some (map (\<lambda>h. if hebrew self then description_hebrew_long h
                             else description_english h)
                     (HOLIDAYS lib))\<rparr>,
           [], Inr (StrValue (holiday_description lib after_shkia))))
   \<and> (key (entity_description self) = ''omer_count'' \<longrightarrow>
        get_state lib self plain after_shkia after_tzais =
          (self, [], Inr (IntValue (omer_day lib after_shkia))))
   \<and> (key (entity_description self) = ''daf_yomi'' \<longrightarrow>
        get_state lib self plain after_shkia after_tzais =
          (self, [], Inr (StrValue (daf_yomi lib plain))))"
  by (simp add: get_state_def Let_def py_index_in_range)

text \<open>
  Friday 2023-09-15 after sunset (the after-sunset date is the 16th, 1 Tishrei), and for
  the weekly portion Saturday the 16th between sunset and havdalah (the after-nightfall
  date is still the 16th).
\<close>

theorem info_sensor_derivation_witness:
  "get_state example_lib (example_sensor JewishCalendarSensor ''date'')
      (example_date 738778) (example_date 738779) (example_date 738778)
    = ((example_sensor JewishCalendarSensor ''date'')
         \<lparr>attrs := [(''hebrew_year'', AttrInt 5784), (''hebrew_month_name'', AttrStr ''Tishrei''),
                    (''hebrew_day'', AttrInt 1)]\<rparr>,
       [], Inr (StrValue ''Tishrei 5784''))
   \<and> get_state example_lib (example_sensor JewishCalendarSensor ''weekly_portion'')
      (example_date 738779) (example_date 738780) (example_date 738779)
    = ((example_sensor JewishCalendarSensor ''weekly_portion'')
         \<lparr>attr_options := Some [''none'', ''Bereshit'', ''Haazinu'']\<rparr>,
       [], Inr (StrValue ''none''))
   \<and> get_state example_lib (example_sensor JewishCalendarSensor ''holiday'')
      (example_date 738778) (example_date 738779) (example_date 738778)
    = ((example_sensor JewishCalendarSensor ''holiday'')
         \<lparr>attrs := [(''id'', AttrStr ''rosh_hashana_i''), (''type'', AttrStr ''YOM_TOV''),
                    (''type_id'', AttrInt 1)],
          attr_options := Some [''Erev Rosh Hashana'', ''Rosh Hashana I'']\<rparr>,
       [], Inr (StrValue ''Rosh Hashana I''))
   \<and> get_state example_lib (example_sensor JewishCalendarSensor ''omer_count'')
      (example_date 738778) (example_date 738779) (example_date 738778)
    = (example_sensor JewishCalendarSensor ''omer_count'', [], Inr (IntValue 0))
   \<and> get_state example_lib (example_sensor JewishCalendarSensor ''daf_yomi'')
      (example_date 738778) (example_date 738779) (example_date 738778)
    = (example_sensor JewishCalendarSensor ''daf_yomi'', [], Inr (StrValue ''Kiddushin 33''))"
  using
    info_sensor_derivation [of "example_sensor JewishCalendarSensor ''date''" example_lib
      "example_date 738779" "example_date 738778" "example_date 738778"]
    info_sensor_derivation [of "example_sensor JewishCalendarSensor ''weekly_portion''" example_lib
      "example_date 738780" "example_date 738779" "example_date 738779"]
    info_sensor_derivation [of "example_sensor JewishCalendarSensor ''holiday''" example_lib
      "example_date 738779" "example_date 738778" "example_date 738778"]
    info_sensor_derivation [of "example_sensor JewishCalendarSensor ''omer_count''" example_lib
      "example_date 738779" "example_date 738778" "example_date 738778"]
    info_sensor_derivation [of "example_sensor JewishCalendarSensor ''daf_yomi''" example_lib
      "example_date 738779" "example_date 738778" "example_date 738778"]
  by (simp add: example_defs)

subsection \<open>Deriving the value of a time sensor\<close>

lemma z_date_make_zmanim [simp]:
  "z_date (make_zmanim host self (DateArg d)) = d"
  "z_date (make_zmanim host self (DateTimeArg t)) = local_date host t"
  by (simp_all add: make_zmanim_def Zmanim_new_def)

text \<open>
  C4. The four "upcoming" sensors build one time table each and read one field of it:
  \<open>upcoming_shabbat_candle_lighting\<close> the candle-lighting time of the table for the day
  before the upcoming Sabbath of the after-nightfall date; \<open>upcoming_candle_lighting\<close>
  the candle-lighting time of the table for the day before the first day of its upcoming
  Sabbath or festival; \<open>upcoming_shabbat_havdalah\<close> the havdalah time of the table for
  the civil date of the upcoming Sabbath; \<open>upcoming_havdalah\<close> the havdalah time of the
  table for the civil date of the last day of the upcoming Sabbath or festival.
\<close>

theorem upcoming_sensor_request_dates:
  "(key (entity_description self) = ''upcoming_shabbat_candle_lighting'' \<longrightarrow>
      get_state_time host lib now2 self plain after_shkia after_tzais =
        (self,
         [ZmanimBuilt (make_zmanim host self
            (DateArg (gdate (upcoming_shabbat lib after_tzais) - 1)))],
         Inr (optional_time (candle_lighting lib (make_zmanim host self
            (DateArg (gdate (upcoming_shabbat lib after_tzais) - 1)))))))
   \<and> (key (entity_description self) = ''upcoming_candle_lighting'' \<longrightarrow>
      get_state_time host lib now2 self plain after_shkia after_tzais =
        (self,
         [ZmanimBuilt (make_zmanim host self
            (DateArg (gdate (first_day lib (upcoming_shabbat_or_yom_tov lib after_tzais)) - 1)))],
         Inr (optional_time (candle_lighting lib (make_zmanim host self
            (DateArg (gdate (first_day lib (upcoming_shabbat_or_yom_tov lib after_tzais)) - 1)))))))
   \<and> (key (entity_description self) = ''upcoming_shabbat_havdalah'' \<longrightarrow>
      get_state_time host lib now2 self plain after_shkia after_tzais =
        (self,
         [ZmanimBuilt (make_zmanim host self
            (DateArg (gdate (upcoming_shabbat lib after_tzais))))],
         Inr (optional_time (havdalah lib (make_zmanim host self
            (DateArg (gdate (upcoming_shabbat lib after_tzais))))))))
   \<and> (key (entity_description self) = ''upcoming_havdalah'' \<longrightarrow>
      get_state_time host lib now2 self plain after_shkia after_tzais =
        (self,
         [ZmanimBuilt (make_zmanim host self
            (DateArg (gdate (last_day lib (upcoming_shabbat_or_yom_tov lib after_tzais)))))],
         Inr (optional_time (havdalah lib (make_zmanim host self
            (DateArg (gdate (last_day lib (upcoming_shabbat_or_yom_tov lib after_tzais)))))))))"
  by (simp add: get_state_time_def Let_def previous_day_def)

text \<open>
  Thursday 2023-09-14: candle lighting is read from Friday's table, havdalah from
  Saturday's.
\<close>

theorem upcoming_sensor_request_dates_witness:
  "get_state_time example_host example_lib (738777 * 86400 + 61201)
      (example_sensor JewishCalendarTimeSensor ''upcoming_shabbat_candle_lighting'')
      (example_date 738777) (example_date 738777) (example_date 738777)
    = (example_sensor JewishCalendarTimeSensor ''upcoming_shabbat_candle_lighting'',
       [ZmanimBuilt \<lparr>z_date = 738778, z_location = ''Jerusalem'', z_candle_lighting_offset = 40,
                     z_havdalah_offset = 50, z_hebrew = False\<rparr>],
       Inr (TimeValue (738778 * 86400 + 65100)))
   \<and> get_state_time example_host example_lib (738777 * 86400 + 61201)
      (example_sensor JewishCalendarTimeSensor ''upcoming_candle_lighting'')
      (example_date 738777) (example_date 738777) (example_date 738777)
    = (example_sensor JewishCalendarTimeSensor ''upcoming_candle_lighting'',
       [ZmanimBuilt \<lparr>z_date = 738778, z_location = ''Jerusalem'', z_candle_lighting_offset = 40,
                     z_havdalah_offset = 50, z_hebrew = False\<rparr>],
       Inr (TimeValue (738778 * 86400 + 65100)))
   \<and> get_state_time example_host example_lib (738777 * 86400 + 61201)
      (example_sensor JewishCalendarTimeSensor ''upcoming_shabbat_havdalah'')
      (example_date 738777) (example_date 738777) (example_date 738777)
    = (example_sensor JewishCalendarTimeSensor ''upcoming_shabbat_havdalah'',
       [ZmanimBuilt \<lparr>z_date = 738779, z_location = ''Jerusalem'', z_candle_lighting_offset = 40,
                     z_havdalah_offset = 50, z_hebrew = False\<rparr>],
       Inr (TimeValue (738779 * 86400 + 70500)))
   \<and> get_state_time example_host example_lib (738777 * 86400 + 61201)
      (example_sensor JewishCalendarTimeSensor ''upcoming_havdalah'')
      (example_date 738777) (example_date 738777) (example_date 738777)
    = (example_sensor JewishCalendarTimeSensor ''upcoming_havdalah'',
       [ZmanimBuilt \<lparr>z_date = 738779, z_location = ''Jerusalem'', z_candle_lighting_offset = 40,
                     z_havdalah_offset = 50, z_hebrew = False\<rparr>],
       Inr (TimeValue (738779 * 86400 + 70500)))"
  using
    upcoming_sensor_request_dates [of
      "example_sensor JewishCalendarTimeSensor ''upcoming_shabbat_candle_lighting''"
      example_host example_lib "738777 * 86400 + 61201" "example_date 738777"
      "example_date 738777" "example_date 738777"]
    upcoming_sensor_request_dates [of
      "example_sensor JewishCalendarTimeSensor ''upcoming_candle_lighting''"
      example_host example_lib "738777 * 86400 + 61201" "example_date 738777"
      "example_date 738777" "example_date 738777"]
    upcoming_sensor_request_dates [of
      "example_sensor JewishCalendarTimeSensor ''upcoming_shabbat_havdalah''"
      example_host example_lib "738777 * 86400 + 61201" "example_date 738777"
      "example_date 738777" "example_date 738777"]
    upcoming_sensor_request_dates [of
      "example_sensor JewishCalendarTimeSensor ''upcoming_havdalah''"
      example_host example_lib "738777 * 86400 + 61201" "example_date 738777"
      "example_date 738777" "example_date 738777"]
  by (simp add: example_defs make_zmanim_def Zmanim_new_def optional_time_def)

lemma get_state_time_plain:
  assumes "key (entity_description self) \<notin> set upcoming_keys"
  shows "get_state_time host lib now2 self plain after_shkia after_tzais =
     (self,
      [NowRead now2, ZmanimBuilt (make_zmanim host self (DateTimeArg now2))],
      case map_of (zmanim lib (make_zmanim host self (DateTimeArg now2)))
             (key (entity_description self)) of
        None \<Rightarrow> Inl KeyError
      | Some t \<Rightarrow> Inr (TimeValue t))"
  using assms
  by (simp add: get_state_time_def upcoming_keys_def Let_def py_getitem_def split: option.splits)

lemma make_zmanim_same_day:
  "local_date host t = d \<Longrightarrow> make_zmanim host self (DateTimeArg t) = make_zmanim host self (DateArg d)"
  by (simp add: make_zmanim_def Zmanim_new_def)

text \<open>
  C5 as stated (the table of a plain daily-time sensor is built for today, the civil date
  of the \<open>now\<close> of day-boundary resolution) fails when the two clock reads of one update
  fall on both sides of midnight: \<open>now\<close> is Friday 23:59:59, the second read is Saturday
  00:00:01, and the \<open>sunset\<close> sensor publishes Saturday's sunset, not Friday's.
\<close>

theorem plain_time_sensor_today_counterexample:
  "local_date example_host (738778 * 86400 + 86399) = 738778
   \<and> async_update example_host example_lib (738778 * 86400 + 86399) (738779 * 86400 + 1)
        (example_sensor JewishCalendarTimeSensor ''sunset'')
      = ((example_sensor JewishCalendarTimeSensor ''sunset'')
           \<lparr>attr_native_value := TimeValue (738779 * 86400 + 67500)\<rparr>,
         [NowRead (738778 * 86400 + 86399), SunsetLookup 738778,
          HDateBuilt (example_date 738778),
          ZmanimBuilt \<lparr>z_date = 738778, z_location = ''Jerusalem'', z_candle_lighting_offset = 40,
                       z_havdalah_offset = 50, z_hebrew = False\<rparr>,
          NowRead (738779 * 86400 + 1),
          ZmanimBuilt \<lparr>z_date = 738779, z_location = ''Jerusalem'', z_candle_lighting_offset = 40,
                       z_havdalah_offset = 50, z_hebrew = False\<rparr>],
         Inr ())
   \<and> map_of (zmanim example_lib (make_zmanim example_host
          (example_sensor JewishCalendarTimeSensor ''sunset'') (DateArg 738778))) ''sunset''
      = Some (738778 * 86400 + 67500)
   \<and> (738779 * 86400 + 67500 :: int) \<noteq> 738778 * 86400 + 67500"
  by (simp add: async_update_def day_boundaries_def call_get_state_def get_state_time_def
      py_getitem_def as_local_def Let_def make_zmanim_def Zmanim_new_def next_day_def example_defs)

text \<open>
  C5, amended. A time sensor whose key is none of the four "upcoming" keys reads the clock
  again, builds the time table for the civil date of that second reading (which is the
  table for today when the reading falls on today's civil date) and returns the table's
  entry under exactly the sensor's key; a table without that key raises \<open>KeyError\<close>.
\<close>

theorem plain_time_sensor_table:
  assumes "key (entity_description self) \<notin> set upcoming_keys"
  shows "get_state_time host lib now2 self plain after_shkia after_tzais =
     (self,
      [NowRead now2, ZmanimBuilt (make_zmanim host self (DateTimeArg now2))],
      case map_of (zmanim lib (make_zmanim host self (DateTimeArg now2)))
             (key (entity_description self)) of
        None \<Rightarrow> Inl KeyError
      | Some t \<Rightarrow> Inr (TimeValue t))
    \<and> z_date (make_zmanim host self (DateTimeArg now2)) = local_date host now2
    \<and> (local_date host now2 = local_date host now \<longrightarrow>
         make_zmanim host self (DateTimeArg now2)
           = make_zmanim host self (DateArg (local_date host now)))"
  using assms
  by (simp add: get_state_time_plain make_zmanim_same_day)

text \<open>Friday 2023-09-15, both clock reads at 17:00: the \<open>sunset\<close> entry of Friday's table.\<close>

theorem plain_time_sensor_table_witness:
  "''sunset'' \<notin> set upcoming_keys
   \<and> get_state_time example_host example_lib (738778 * 86400 + 61201)
        (example_sensor JewishCalendarTimeSensor ''sunset'')
        (example_date 738778) (example_date 738778) (example_date 738778)
      = (example_sensor JewishCalendarTimeSensor ''sunset'',
         [NowRead (738778 * 86400 + 61201),
          ZmanimBuilt \<lparr>z_date = 738778, z_location = ''Jerusalem'', z_candle_lighting_offset = 40,
                       z_havdalah_offset = 50, z_hebrew = False\<rparr>],
         Inr (TimeValue (738778 * 86400 + 67500)))
   \<and> local_date example_host (738778 * 86400 + 61201)
      = local_date example_host (738778 * 86400 + 61200)"
proof -
  have k: "key (entity_description (example_sensor JewishCalendarTimeSensor ''sunset''))
             \<notin> set upcoming_keys"
    by (simp add: upcoming_keys_def example_defs)
  show ?thesis
    using plain_time_sensor_table [OF k, of example_host example_lib "738778 * 86400 + 61201"
        "example_date 738778" "example_date 738778" "example_date 738778"
        "738778 * 86400 + 61200"]
    by (simp add: upcoming_keys_def example_defs make_zmanim_def Zmanim_new_def)
qed

subsection \<open>Keys without a branch\<close>

lemmas update_defs = async_update_def day_boundaries_def call_get_state_def as_local_def Let_def

text \<open>
  C7 as stated (a sensor whose key matches no branch publishes \<open>None\<close> and never raises)
  fails for a time sensor: with the key \<open>bogus\<close>, which the time table does not have, the
  update raises \<open>KeyError\<close>.
\<close>

theorem unmapped_key_counterexample:
  "key (entity_description (example_sensor JewishCalendarTimeSensor ''bogus'')) = ''bogus''
   \<and> ''bogus'' \<notin> set upcoming_keys
   \<and> get_astral_event_date example_host (local_date example_host (738778 * 86400 + 61200))
      = Some (738778 * 86400 + 67500)
   \<and> snd (snd (async_update example_host example_lib (738778 * 86400 + 61200)
        (738778 * 86400 + 61201) (example_sensor JewishCalendarTimeSensor ''bogus'')))
      = Inl KeyError"
  by (simp add: update_defs get_state_time_def py_getitem_def upcoming_keys_def
      make_zmanim_def Zmanim_new_def next_day_def example_defs)

text \<open>
  C7, amended. With sunset data, an info sensor whose key is none of the five keys
  publishes \<open>None\<close> and returns. A time sensor whose key is none of the four "upcoming"
  keys publishes the entry of the time table under its key when there is one; when there
  is none the update raises \<open>KeyError\<close> and leaves the sensor as it was.
\<close>

theorem unmapped_key:
  assumes "get_astral_event_date host (local_date host now) = Some event_date"
  shows "(cls self = JewishCalendarSensor \<and> key (entity_description self) \<notin> set info_keys \<longrightarrow>
            fst (async_update host lib now now2 self) = self\<lparr>attr_native_value := NoneValue\<rparr>
            \<and> snd (snd (async_update host lib now now2 self)) = Inr ())
       \<and> (cls self = JewishCalendarTimeSensor
            \<and> key (entity_description self) \<notin> set upcoming_keys \<longrightarrow>
            (case map_of (zmanim lib (make_zmanim host self (DateTimeArg now2)))
                    (key (entity_description self)) of
               None \<Rightarrow>
                 fst (async_update host lib now now2 self) = self
                 \<and> snd (snd (async_update host lib now now2 self)) = Inl KeyError
             | Some t \<Rightarrow>
                 fst (async_update host lib now now2 self) = self\<lparr>attr_native_value := TimeValue t\<rparr>
                 \<and> snd (snd (async_update host lib now now2 self)) = Inr ()))"
proof (intro conjI impI)
  assume a: "cls self = JewishCalendarSensor \<and> key (entity_description self) \<notin> set info_keys"
  then have "get_state lib self d s t = (self, [], Inr NoneValue)" for d s t
    by (simp add: get_state_def info_keys_def)
  with a assms show "fst (async_update host lib now now2 self) = self\<lparr>attr_native_value := NoneValue\<rparr>"
    and "snd (snd (async_update host lib now now2 self)) = Inr ()"
    by (simp_all add: update_defs)
next
  assume a: "cls self = JewishCalendarTimeSensor
    \<and> key (entity_description self) \<notin> set upcoming_keys"
  then show "case map_of (zmanim lib (make_zmanim host self (DateTimeArg now2)))
                    (key (entity_description self)) of
               None \<Rightarrow>
                 fst (async_update host lib now now2 self) = self
                 \<and> snd (snd (async_update host lib now now2 self)) = Inl KeyError
             | Some t \<Rightarrow>
                 fst (async_update host lib now now2 self) = self\<lparr>attr_native_value := TimeValue t\<rparr>
                 \<and> snd (snd (async_update host lib now now2 self)) = Inr ()"
    using assms by (simp add: update_defs get_state_time_plain split: option.splits)
qed

text \<open>
  Friday 2023-09-15 at 17:00: an info sensor with the key \<open>bogus\<close> keeps \<open>None\<close>, the time
  sensor \<open>midday\<close> publishes noon, a time sensor with the key \<open>bogus\<close> is left as it was.
\<close>

theorem unmapped_key_witness:
  "get_astral_event_date example_host (local_date example_host (738778 * 86400 + 61200))
      = Some (738778 * 86400 + 67500)
   \<and> ''bogus'' \<notin> set info_keys
   \<and> fst (async_update example_host example_lib (738778 * 86400 + 61200)
        (738778 * 86400 + 61201) (example_sensor JewishCalendarSensor ''bogus''))
      = example_sensor JewishCalendarSensor ''bogus''
   \<and> snd (snd (async_update example_host example_lib (738778 * 86400 + 61200)
        (738778 * 86400 + 61201) (example_sensor JewishCalendarSensor ''bogus''))) = Inr ()
   \<and> ''midday'' \<notin> set upcoming_keys
   \<and> fst (async_update example_host example_lib (738778 * 86400 + 61200)
        (738778 * 86400 + 61201) (example_sensor JewishCalendarTimeSensor ''midday''))
      = (example_sensor JewishCalendarTimeSensor ''midday'')
          \<lparr>attr_native_value := TimeValue (738778 * 86400 + 43200)\<rparr>
   \<and> ''bogus'' \<notin> set upcoming_keys
   \<and> fst (async_update example_host example_lib (738778 * 86400 + 61200)
        (738778 * 86400 + 61201) (example_sensor JewishCalendarTimeSensor ''bogus''))
      = example_sensor JewishCalendarTimeSensor ''bogus''"
proof -
  have h: "get_astral_event_date example_host (local_date example_host (738778 * 86400 + 61200))
      = Some (738778 * 86400 + 67500)"
    by (simp add: example_defs)
  show ?thesis
    using h
      unmapped_key [OF h, of "example_sensor JewishCalendarSensor ''bogus''" example_lib
        "738778 * 86400 + 61201"]
      unmapped_key [OF h, of "example_sensor JewishCalendarTimeSensor ''midday''" example_lib
        "738778 * 86400 + 61201"]
      unmapped_key [OF h, of "example_sensor JewishCalendarTimeSensor ''bogus''" example_lib
        "738778 * 86400 + 61201"]
    by (simp add: info_keys_def upcoming_keys_def make_zmanim_def Zmanim_new_def example_defs)
qed

subsection \<open>The size of the catalog\<close>

text \<open>
  C8 as stated (21 descriptors, 5 info and 16 time) fails: \<open>TIME_SENSORS\<close> has 18
  entries.
\<close>

theorem catalog_counterexample:
  "\<not> (length (INFO_SENSORS @ TIME_SENSORS) = 21
        \<and> distinct (map key (INFO_SENSORS @ TIME_SENSORS))
        \<and> length INFO_SENSORS = 5
        \<and> length TIME_SENSORS = 16)"
  by (simp add: INFO_SENSORS_def TIME_SENSORS_def)

text \<open>
  C8, amended. The catalog has 23 descriptors with pairwise distinct keys, 5 info sensors
  and 18 time sensors; \<open>async_setup_entry\<close> creates one sensor for each, the info sensors
  of class \<open>JewishCalendarSensor\<close> and the time sensors of class
  \<open>JewishCalendarTimeSensor\<close>.
\<close>

theorem catalog_size:
  "length (INFO_SENSORS @ TIME_SENSORS) = 23
   \<and> distinct (map key (INFO_SENSORS @ TIME_SENSORS))
   \<and> length INFO_SENSORS = 5
   \<and> length TIME_SENSORS = 18
   \<and> map cls (async_setup_entry DEFAULT_NAME entry_id entry)
      = replicate 5 JewishCalendarSensor @ replicate 18 JewishCalendarTimeSensor
   \<and> map entity_description (async_setup_entry DEFAULT_NAME entry_id entry)
      = INFO_SENSORS @ TIME_SENSORS"
  by (simp add: INFO_SENSORS_def TIME_SENSORS_def description_def async_setup_entry_def init_def
      numeral_eq_Suc)

subsection \<open>Options and attributes\<close>

text \<open>
  C9. Every update with sunset data sets the options of the \<open>weekly_portion\<close> sensor to
  the whole list \<open>PARASHAOT\<close> and those of the \<open>holiday\<close> sensor to the descriptions of
  the whole list \<open>HOLIDAYS\<close>, in the sensor's language, whatever \<open>now\<close> is.
\<close>

theorem enum_options_complete:
  assumes "get_astral_event_date host (local_date host now) = Some event_date"
    and "cls self = JewishCalendarSensor"
  shows "(key (entity_description self) = ''weekly_portion'' \<longrightarrow>
            attr_options (fst (async_update host lib now now2 self)) =
              Some (map (\<lambda>p. if hebrew self then lang_hebrew p else lang_english p)
                      (PARASHAOT lib))
            \<and> snd (snd (async_update host lib now now2 self)) = Inr ())
       \<and> (key (entity_description self) = ''holiday'' \<longrightarrow>
            attr_options (fst (async_update host lib now now2 self)) =
              Some (map (\<lambda>h. if hebrew self then description_hebrew_long h
                              else description_english h)
                      (HOLIDAYS lib))
            \<and> snd (snd (async_update host lib now now2 self)) = Inr ())"
  using assms by (simp add: update_defs get_state_def)

text \<open>Friday 2023-09-15 at 17:00: both option lists are the whole tables.\<close>

theorem enum_options_complete_witness:
  "get_astral_event_date example_host (local_date example_host (738778 * 86400 + 61200))
      = Some (738778 * 86400 + 67500)
   \<and> attr_options (fst (async_update example_host example_lib (738778 * 86400 + 61200)
        (738778 * 86400 + 61201) (example_sensor JewishCalendarSensor ''weekly_portion'')))
      = Some [''none'', ''Bereshit'', ''Haazinu'']
   \<and> attr_options (fst (async_update example_host example_lib (738778 * 86400 + 61200)
        (738778 * 86400 + 61201) (example_sensor JewishCalendarSensor ''holiday'')))
      = Some [''Erev Rosh Hashana'', ''Rosh Hashana I'']"
proof -
  have h: "get_astral_event_date example_host (local_date example_host (738778 * 86400 + 61200))
      = Some (738778 * 86400 + 67500)"
    by (simp add: example_defs)
  have c: "cls (example_sensor JewishCalendarSensor k) = JewishCalendarSensor" for k
    by (simp add: example_defs)
  show ?thesis
    using h
      enum_options_complete [OF h c, of "''weekly_portion''" example_lib "738778 * 86400 + 61201"]
      enum_options_complete [OF h c, of "''holiday''" example_lib "738778 * 86400 + 61201"]
    by (simp add: example_defs)
qed

text \<open>
  How an update ends: skipped for want of sunset data, with an exception of \<open>get_state\<close>,
  or with the value of \<open>get_state\<close> published.
\<close>

lemma async_update_cases:
  obtains (skipped) "get_astral_event_date host (local_date host now) = None"
      and "fst (async_update host lib now now2 self) = self"
  | (raised) d s t self' calls e where "call_get_state host lib now2 self d s t = (self', calls, Inl e)"
      and "fst (async_update host lib now now2 self) = self'"
      and "snd (snd (async_update host lib now now2 self)) = Inl e"
  | (published) d s t self' calls v event_date
    where "call_get_state host lib now2 self d s t = (self', calls, Inr v)"
      and "get_astral_event_date host (local_date host now) = Some event_date"
      and "fst (async_update host lib now now2 self) = self'\<lparr>attr_native_value := v\<rparr>"
      and "snd (snd (async_update host lib now now2 self)) = Inr ()"
proof (cases "get_astral_event_date host (local_date host now)")
  case None
  then have "fst (async_update host lib now now2 self) = self"
    by (simp add: async_update_def Let_def)
  with None show ?thesis by (rule skipped)
next
  case (Some event_date)
  obtain d s t where b: "day_boundaries host lib self now (local_date host now)
      (as_local event_date) = (d, s, t)"
    by (cases "day_boundaries host lib self now (local_date host now) (as_local event_date)")
  obtain self' calls r where g: "call_get_state host lib now2 self d s t = (self', calls, r)"
    by (cases "call_get_state host lib now2 self d s t")
  show ?thesis
  proof (cases r)
    case (Inl e)
    with g have g': "call_get_state host lib now2 self d s t = (self', calls, Inl e)" by simp
    have "fst (async_update host lib now now2 self) = self'"
      and "snd (snd (async_update host lib now now2 self)) = Inl e"
      by (simp_all add: async_update_def Let_def Some b g')
    with g' show ?thesis by (rule raised)
  next
    case (Inr v)
    with g have g': "call_get_state host lib now2 self d s t = (self', calls, Inr v)" by simp
    have "fst (async_update host lib now now2 self) = self'\<lparr>attr_native_value := v\<rparr>"
      and "snd (snd (async_update host lib now now2 self)) = Inr ()"
      by (simp_all add: async_update_def Let_def Some b g')
    with g' Some show ?thesis by (rule published)
  qed
qed

lemma get_state_fixed:
  "cls (fst (get_state lib self d s t)) = cls self
   \<and> entity_description (fst (get_state lib self d s t)) = entity_description self"
  by (simp add: get_state_def Let_def split: sum.splits)

lemma get_state_time_fixed: "fst (get_state_time host lib now2 self d s t) = self"
  by (simp add: get_state_time_def Let_def)

lemma call_get_state_fixed:
  "cls (fst (call_get_state host lib now2 self d s t)) = cls self
   \<and> entity_description (fst (call_get_state host lib now2 self d s t)) = entity_description self"
  by (cases "cls self") (simp_all add: call_get_state_def get_state_fixed get_state_time_fixed)

lemma async_update_fixed:
  "cls (fst (async_update host lib now now2 self)) = cls self
   \<and> entity_description (fst (async_update host lib now now2 self)) = entity_description self"
proof (cases rule: async_update_cases [where host = host and now = now and lib = lib
    and ?now2.0 = now2 and self = self])
  case skipped
  then show ?thesis by simp
next
  case (raised d s t self' calls e)
  then show ?thesis using call_get_state_fixed [of host lib now2 self d s t] by simp
next
  case (published d s t self' calls v event_date)
  then show ?thesis using call_get_state_fixed [of host lib now2 self d s t] by simp
qed

lemma get_state_attrs_frame:
  "key (entity_description self) \<noteq> ''date'' \<Longrightarrow> key (entity_description self) \<noteq> ''holiday''
   \<Longrightarrow> attrs (fst (get_state lib self d s t)) = attrs self"
  by (simp add: get_state_def)

lemma call_get_state_attrs_frame:
  assumes "cls self = JewishCalendarTimeSensor
    \<or> (key (entity_description self) \<noteq> ''date'' \<and> key (entity_description self) \<noteq> ''holiday'')"
  shows "attrs (fst (call_get_state host lib now2 self d s t)) = attrs self"
  using assms
  by (cases "cls self")
     (auto simp: call_get_state_def get_state_attrs_frame get_state_time_fixed)

lemma async_update_attrs_frame:
  assumes "cls self = JewishCalendarTimeSensor
    \<or> (key (entity_description self) \<noteq> ''date'' \<and> key (entity_description self) \<noteq> ''holiday'')"
  shows "attrs (fst (async_update host lib now now2 self)) = attrs self"
proof (cases rule: async_update_cases [where host = host and now = now and lib = lib
    and ?now2.0 = now2 and self = self])
  case skipped
  then show ?thesis by simp
next
  case (raised d s t self' calls e)
  then show ?thesis
    using call_get_state_attrs_frame [OF assms, of host lib now2 d s t] by simp
next
  case (published d s t self' calls v event_date)
  then show ?thesis
    using call_get_state_attrs_frame [OF assms, of host lib now2 d s t] by simp
qed

lemma get_state_attrs_set:
  assumes "key (entity_description self) = ''date'' \<or> key (entity_description self) = ''holiday''"
    and "get_state lib self d s t = (self', calls, Inr v)"
  shows "length (attrs self') = 3"
  using assms by (auto simp: get_state_def Let_def split: sum.splits if_splits)

lemma polls_fixed:
  "cls (polls host lib readings self) = cls self
   \<and> entity_description (polls host lib readings self) = entity_description self"
proof (induction readings arbitrary: self)
  case Nil
  show ?case by simp
next
  case (Cons r rest)
  obtain now now2 where r: "r = (now, now2)" by (cases r)
  show ?case
    using Cons.IH [of "fst (async_update host lib now now2 self)"]
      async_update_fixed [of host lib now now2 self]
    by (simp add: r)
qed

lemma polls_attrs_frame:
  assumes "cls self = JewishCalendarTimeSensor
    \<or> (key (entity_description self) \<noteq> ''date'' \<and> key (entity_description self) \<noteq> ''holiday'')"
  shows "attrs (polls host lib readings self) = attrs self"
  using assms
proof (induction readings arbitrary: self)
  case Nil
  then show ?case by simp
next
  case (Cons r rest)
  obtain now now2 where r: "r = (now, now2)" by (cases r)
  let ?s = "fst (async_update host lib now now2 self)"
  have fixed: "cls ?s = cls self" "entity_description ?s = entity_description self"
    using async_update_fixed [of host lib now now2 self] by simp_all
  have "attrs (polls host lib rest ?s) = attrs ?s"
    using Cons.prems fixed by (intro Cons.IH) simp
  also have "attrs ?s = attrs self"
    using Cons.prems by (rule async_update_attrs_frame)
  finally show ?case by (simp add: r)
qed

lemma setup_sensor:
  assumes "self \<in> set (async_setup_entry DEFAULT_NAME entry_id entry)"
  shows "attrs self = []
    \<and> (cls self = JewishCalendarSensor \<and> entity_description self \<in> set INFO_SENSORS
        \<or> cls self = JewishCalendarTimeSensor \<and> entity_description self \<in> set TIME_SENSORS)"
  using assms by (auto simp: async_setup_entry_def init_def)

lemma time_sensor_keys:
  "d \<in> set TIME_SENSORS \<Longrightarrow> key d \<noteq> ''date'' \<and> key d \<noteq> ''holiday''"
  by (auto simp: TIME_SENSORS_def description_def)

text \<open>
  C10. For a sensor of the catalog whose key is neither \<open>date\<close> nor \<open>holiday\<close> (the
  other three info sensors and all time sensors) the attributes are empty after any number
  of polls. The \<open>date\<close> and \<open>holiday\<close> sensors are info sensors, and every update of theirs
  that has sunset data and returns leaves three attributes.
\<close>

theorem attributes_frame:
  assumes "self \<in> set (async_setup_entry DEFAULT_NAME entry_id entry)"
  shows "(key (entity_description self) \<noteq> ''date'' \<and> key (entity_description self) \<noteq> ''holiday''
            \<longrightarrow> attrs (polls host lib readings self) = [])
       \<and> (key (entity_description self) = ''date'' \<or> key (entity_description self) = ''holiday''
            \<longrightarrow> cls self = JewishCalendarSensor
              \<and> (\<forall>now now2 event_date.
                    get_astral_event_date host (local_date host now) = Some event_date
                    \<and> snd (snd (async_update host lib now now2 (polls host lib readings self)))
                        = Inr ()
                    \<longrightarrow> length (attrs (fst (async_update host lib now now2
                          (polls host lib readings self)))) = 3))"
proof (intro conjI impI allI)
  assume k: "key (entity_description self) \<noteq> ''date'' \<and> key (entity_description self) \<noteq> ''holiday''"
  then have "attrs (polls host lib readings self) = attrs self"
    by (intro polls_attrs_frame) simp
  then show "attrs (polls host lib readings self) = []"
    using setup_sensor [OF assms] by simp
next
  assume k: "key (entity_description self) = ''date'' \<or> key (entity_description self) = ''holiday''"
  then show "cls self = JewishCalendarSensor"
    using setup_sensor [OF assms] time_sensor_keys [of "entity_description self"] by auto
next
  fix now now2 event_date
  assume k: "key (entity_description self) = ''date'' \<or> key (entity_description self) = ''holiday''"
  assume u: "get_astral_event_date host (local_date host now) = Some event_date
    \<and> snd (snd (async_update host lib now now2 (polls host lib readings self))) = Inr ()"
  let ?p = "polls host lib readings self"
  have c: "cls ?p = JewishCalendarSensor"
    using k setup_sensor [OF assms] time_sensor_keys [of "entity_description self"]
      polls_fixed [of host lib readings self] by auto
  have k': "key (entity_description ?p) = ''date'' \<or> key (entity_description ?p) = ''holiday''"
    using k polls_fixed [of host lib readings self] by simp
  show "length (attrs (fst (async_update host lib now now2 ?p))) = 3"
  proof (cases rule: async_update_cases [where host = host and now = now and lib = lib
      and ?now2.0 = now2 and self = ?p])
    case skipped
    with u show ?thesis by simp
  next
    case (raised d s t self' calls e)
    with u show ?thesis by simp
  next
    case (published d s t self' calls v event_date)
    then have "get_state lib ?p d s t = (self', calls, Inr v)"
      using c by (simp add: call_get_state_def)
    from get_state_attrs_set [OF k' this] published show ?thesis by simp
  qed
qed

text \<open>
  After the two polls of Friday the \<open>sunset\<close> sensor has no attributes; a third poll on
  Saturday at 17:00 leaves the \<open>date\<close> sensor three.
\<close>

theorem attributes_frame_witness:
  "example_sunset_sensor \<in> set (async_setup_entry ''Jewish Calendar'' ''entry'' example_entry)
   \<and> key (entity_description example_sunset_sensor) = ''sunset''
   \<and> attrs (polls example_host example_lib example_readings example_sunset_sensor) = []
   \<and> example_date_sensor \<in> set (async_setup_entry ''Jewish Calendar'' ''entry'' example_entry)
   \<and> key (entity_description example_date_sensor) = ''date''
   \<and> get_astral_event_date example_host (local_date example_host (738779 * 86400 + 61200))
      = Some (738779 * 86400 + 67500)
   \<and> snd (snd (async_update example_host example_lib (738779 * 86400 + 61200)
        (738779 * 86400 + 61201)
        (polls example_host example_lib example_readings example_date_sensor))) = Inr ()
   \<and> length (attrs (fst (async_update example_host example_lib (738779 * 86400 + 61200)
        (738779 * 86400 + 61201)
        (polls example_host example_lib example_readings example_date_sensor)))) = 3"
proof -
  have m1: "example_sunset_sensor
      \<in> set (async_setup_entry ''Jewish Calendar'' ''entry'' example_entry)"
    by (simp add: example_sunset_sensor_def async_setup_entry_def TIME_SENSORS_def)
  have m2: "example_date_sensor
      \<in> set (async_setup_entry ''Jewish Calendar'' ''entry'' example_entry)"
    by (simp add: example_date_sensor_def async_setup_entry_def INFO_SENSORS_def)
  have k1: "key (entity_description example_sunset_sensor) = ''sunset''"
    by (simp add: example_sunset_sensor_def TIME_SENSORS_def init_def description_def)
  have k2: "key (entity_description example_date_sensor) = ''date''"
    by (simp add: example_date_sensor_def INFO_SENSORS_def init_def description_def)
  have a: "get_astral_event_date example_host (local_date example_host (738779 * 86400 + 61200))
      = Some (738779 * 86400 + 67500)
    \<and> snd (snd (async_update example_host example_lib (738779 * 86400 + 61200)
        (738779 * 86400 + 61201)
        (polls example_host example_lib example_readings example_date_sensor))) = Inr ()"
    by (simp add: example_readings_def example_date_sensor_def INFO_SENSORS_def update_defs
        get_state_def py_index_def make_zmanim_def Zmanim_new_def next_day_def example_defs)
  have "attrs (polls example_host example_lib example_readings example_sunset_sensor) = []"
    using attributes_frame [OF m1, of example_host example_lib example_readings] k1 by simp
  moreover have "length (attrs (fst (async_update example_host example_lib (738779 * 86400 + 61200)
        (738779 * 86400 + 61201)
        (polls example_host example_lib example_readings example_date_sensor)))) = 3"
    using attributes_frame [OF m2, of example_host example_lib example_readings] k2 a by blast
  ultimately show ?thesis using m1 m2 k1 k2 a by simp
qed

end
